theory Spec2Isabelle
  imports Main "HOL-Library.Sublist"
begin

section \<open>Parsed JSON documents\<close>

text \<open>
  What \<^verbatim>\<open>json.load\<close> returns: \<^verbatim>\<open>None\<close>, a \<^verbatim>\<open>bool\<close>, an \<^verbatim>\<open>int\<close>, a
  \<^verbatim>\<open>float\<close>, a \<^verbatim>\<open>str\<close>, a \<^verbatim>\<open>list\<close> or a \<^verbatim>\<open>dict\<close> with string keys.
  A \<^verbatim>\<open>str\<close> is the list of the bytes of its UTF-8 encoding. The parser also returns
  strings with a lone surrogate (from an escape such as \<^verbatim>\<open>\ud800\<close>), which UTF-8 does not
  encode: such a code point, U+D800 to U+DFFF, is carried as the three bytes that the
  encoding scheme would give it (\<^verbatim>\<open>ED\<close>, then \<^verbatim>\<open>A0\<close> to \<^verbatim>\<open>BF\<close>, then \<^verbatim>\<open>80\<close> to
  \<^verbatim>\<open>BF\<close>), which no other code point uses. A \<^verbatim>\<open>float\<close> is carried as the
  text of its \<^verbatim>\<open>float.__repr__\<close>; the program never computes with one. A \<^verbatim>\<open>dict\<close> is an
  association list in insertion order, looked up with \<^const>\<open>map_of\<close>; a dict holds each
  key once, and in a list that repeats a key the first entry is the one that counts.
\<close>

datatype json =
    JNull
  | JBool bool
  | JInt int
  | JFloat string
  | JStr string
  | JArr "json list"
  | JObj "(string \<times> json) list"

text \<open>The exceptions the program can meet.\<close>

datatype pyexc =
    JSONDecodeError
  | UnicodeDecodeError
  | UnicodeEncodeError
  | RecursionError
  | TypeError
  | KeyError
  | IsADirectoryError
  | PermissionError
  | FileNotFoundError
  | EOFError

text \<open>
  The three labels \<^verbatim>\<open>extract_textures_from_json\<close> returns beside the list. The
  source's strings are Chinese: the label for a top-level \<^verbatim>\<open>textures\<close> list (the
  spec's "standard"), the one for \<^verbatim>\<open>FileReferences.Textures\<close> (the spec's
  "cubism-3-plus") and the one for neither (the spec's "unrecognized").
\<close>

datatype format_type = Standard_format | Cubism3_format | Unknown_format

section \<open>The extractor\<close>

text \<open>
  \<^verbatim>\<open>key in data\<close> for a string \<open>key\<close>: key membership in a dict, element
  membership in a list (only an equal string is equal to a string), substring test in a
  string, and \<^verbatim>\<open>TypeError\<close> (argument is not iterable) for everything else.
\<close>

fun py_in :: "string \<Rightarrow> json \<Rightarrow> pyexc + bool" where
  "py_in key (JObj kvs) = Inr (map_of kvs key \<noteq> None)"
| "py_in key (JArr xs) = Inr (JStr key \<in> set xs)"
| "py_in key (JStr s) = Inr (sublist key s)"
| "py_in key JNull = Inl TypeError"
| "py_in key (JBool b) = Inl TypeError"
| "py_in key (JInt i) = Inl TypeError"
| "py_in key (JFloat f) = Inl TypeError"

text \<open>
  \<^verbatim>\<open>data[key]\<close> for a string \<open>key\<close>: the value in a dict (\<^verbatim>\<open>KeyError\<close> when
  absent); a list and a string take integer indices only, and the other values are not
  subscriptable: \<^verbatim>\<open>TypeError\<close>.
\<close>

fun py_getitem :: "json \<Rightarrow> string \<Rightarrow> pyexc + json" where
  "py_getitem (JObj kvs) key = (case map_of kvs key of None \<Rightarrow> Inl KeyError | Some v \<Rightarrow> Inr v)"
| "py_getitem (JArr xs) key = Inl TypeError"
| "py_getitem (JStr s) key = Inl TypeError"
| "py_getitem JNull key = Inl TypeError"
| "py_getitem (JBool b) key = Inl TypeError"
| "py_getitem (JInt i) key = Inl TypeError"
| "py_getitem (JFloat f) key = Inl TypeError"

fun isinstance_list :: "json \<Rightarrow> bool" where
  "isinstance_list (JArr xs) = True"
| "isinstance_list v = False"

fun isinstance_dict :: "json \<Rightarrow> bool" where
  "isinstance_dict (JObj kvs) = True"
| "isinstance_dict v = False"

text \<open>
  \<^verbatim>\<open>key in data and isinstance(data[key], ...)\<close>: the index expression is evaluated only
  when the membership test is true, and either of them may raise. The value is returned
  with the test, for the branch that uses it.
\<close>

definition has_typed_key :: "string \<Rightarrow> (json \<Rightarrow> bool) \<Rightarrow> json \<Rightarrow> pyexc + json option" where
  "has_typed_key key isinst data =
     (case py_in key data of
        Inl e \<Rightarrow> Inl e
      | Inr False \<Rightarrow> Inr None
      | Inr True \<Rightarrow>
          (case py_getitem data key of
             Inl e \<Rightarrow> Inl e
           | Inr v \<Rightarrow> Inr (if isinst v then Some v else None)))"

text \<open>
  \<^verbatim>\<open>extract_textures_from_json(data)\<close>: \<open>Inl\<close> is a raised exception, \<open>Inr\<close> the
  returned pair; \<open>None\<close> in the pair is Python's \<^verbatim>\<open>None\<close>.
\<close>

definition extract_textures_from_json :: "json \<Rightarrow> pyexc + (json list option \<times> format_type)" where
  "extract_textures_from_json data =
     (case has_typed_key ''textures'' isinstance_list data of
        Inl e \<Rightarrow> Inl e
      | Inr (Some (JArr textures)) \<Rightarrow> Inr (Some textures, Standard_format)
      | Inr _ \<Rightarrow>
          (case has_typed_key ''FileReferences'' isinstance_dict data of
             Inl e \<Rightarrow> Inl e
           | Inr (Some file_refs) \<Rightarrow>
               (case has_typed_key ''Textures'' isinstance_list file_refs of
                  Inl e \<Rightarrow> Inl e
                | Inr (Some (JArr textures)) \<Rightarrow> Inr (Some textures, Cubism3_format)
                | Inr _ \<Rightarrow> Inr (None, Unknown_format))
           | Inr None \<Rightarrow> Inr (None, Unknown_format)))"

section \<open>Writing JSON\<close>

text \<open>
  \<^verbatim>\<open>json.dump(obj, f, ensure_ascii=False, indent=4)\<close> of the standard library, as
  \<^verbatim>\<open>json/encoder.py\<close> computes the text: only the quote, the backslash and the control
  characters below \<^verbatim>\<open>0x20\<close> are escaped, an empty list is \<^verbatim>\<open>[]\<close> and an empty dict
  \<^verbatim>\<open>{}\<close>, and every item of a non-empty container is on a line of its own, indented by
  four spaces for each level, items separated by a comma and keys from values by a colon
  and a space.
\<close>

definition hexdigit :: "nat \<Rightarrow> char" where
  "hexdigit d = ''0123456789abcdef'' ! d"

definition escape_char :: "char \<Rightarrow> string" where
  "escape_char c =
     (if c = CHR 0x5C then [CHR 0x5C, CHR 0x5C]
      else if c = CHR 0x22 then [CHR 0x5C, CHR 0x22]
      else if c = CHR 0x08 then [CHR 0x5C, CHR ''b'']
      else if c = CHR 0x0C then [CHR 0x5C, CHR ''f'']
      else if c = CHR 0x0A then [CHR 0x5C, CHR ''n'']
      else if c = CHR 0x0D then [CHR 0x5C, CHR ''r'']
      else if c = CHR 0x09 then [CHR 0x5C, CHR ''t'']
      else if (of_char c :: nat) < 0x20
        then [CHR 0x5C, CHR ''u'', CHR ''0'', CHR ''0'',
              hexdigit ((of_char c :: nat) div 16), hexdigit ((of_char c :: nat) mod 16)]
      else [c])"

definition encode_basestring :: "string \<Rightarrow> string" where
  "encode_basestring s = [CHR 0x22] @ concat (map escape_char s) @ [CHR 0x22]"

fun nat_repr :: "nat \<Rightarrow> string" where
  "nat_repr n =
     (if n < 10 then [''0123456789'' ! n]
      else nat_repr (n div 10) @ [''0123456789'' ! (n mod 10)])"

definition int_repr :: "int \<Rightarrow> string" where
  "int_repr i = (if i < 0 then CHR ''-'' # nat_repr (nat (- i)) else nat_repr (nat i))"

definition floatstr :: "string \<Rightarrow> string" where
  "floatstr r =
     (if r = ''nan'' then ''NaN''
      else if r = ''inf'' then ''Infinity''
      else if r = ''-inf'' then ''-Infinity''
      else r)"

definition newline_indent :: "nat \<Rightarrow> string" where
  "newline_indent level = CHR 0x0A # replicate (4 * level) CHR '' ''"

text \<open>The text of a value that is no container; \<open>None\<close> for a list or a dict.\<close>

fun atom :: "json \<Rightarrow> string option" where
  "atom JNull = Some ''null''"
| "atom (JBool b) = Some (if b then ''true'' else ''false'')"
| "atom (JInt i) = Some (int_repr i)"
| "atom (JFloat r) = Some (floatstr r)"
| "atom (JStr s) = Some (encode_basestring s)"
| "atom (JArr xs) = None"
| "atom (JObj kvs) = None"

text \<open>
  The encoder yields the text in chunks, and \<^verbatim>\<open>json.dump\<close> hands each chunk to
  \<^verbatim>\<open>f.write\<close>. In a list the opening bracket or the separator comes in one chunk with the
  item that follows it when the item is no container, and in a chunk of its own before the
  chunks of a container; in a dict the brace, the indentation, the separators, the keys and
  the colons are chunks of their own. (The nesting is taken to stay below the recursion
  limit of the interpreter.)
\<close>

fun iterencode :: "nat \<Rightarrow> json \<Rightarrow> string list"
  and iterencode_list :: "nat \<Rightarrow> string \<Rightarrow> json list \<Rightarrow> string list"
  and iterencode_dict :: "nat \<Rightarrow> bool \<Rightarrow> (string \<times> json) list \<Rightarrow> string list"
where
  "iterencode level JNull = [''null'']"
| "iterencode level (JBool b) = [if b then ''true'' else ''false'']"
| "iterencode level (JInt i) = [int_repr i]"
| "iterencode level (JFloat r) = [floatstr r]"
| "iterencode level (JStr s) = [encode_basestring s]"
| "iterencode level (JArr xs) =
     (if xs = [] then [''[]'']
      else iterencode_list (Suc level) (''['' @ newline_indent (Suc level)) xs
           @ [newline_indent level, '']''])"
| "iterencode level (JObj kvs) =
     (if kvs = [] then [''{}'']
      else [''{'', newline_indent (Suc level)]
           @ iterencode_dict (Suc level) True kvs
           @ [newline_indent level, ''}''])"
| "iterencode_list level buf [] = []"
| "iterencode_list level buf (v # vs) =
     (case atom v of
        Some t \<Rightarrow> [buf @ t]
      | None \<Rightarrow> buf # iterencode level v)
     @ iterencode_list level ('','' @ newline_indent level) vs"
| "iterencode_dict level first [] = []"
| "iterencode_dict level first ((k, v) # kvs) =
     (if first then [] else ['','' @ newline_indent level])
     @ [encode_basestring k, '': '']
     @ (case atom v of
          Some t \<Rightarrow> [t]
        | None \<Rightarrow> iterencode level v)
     @ iterencode_dict level False kvs"

text \<open>The whole text of a dump that does not raise.\<close>

definition json_dump :: "json \<Rightarrow> string" where
  "json_dump obj = concat (iterencode 0 obj)"

text \<open>
  A text file opened with \<^verbatim>\<open>encoding='utf-8'\<close> encodes each chunk as it is written, and
  a chunk with a surrogate raises \<^verbatim>\<open>UnicodeEncodeError\<close>. The chunks written before stay
  in the buffer and reach the file when the \<^verbatim>\<open>with\<close> statement closes it.
\<close>

fun has_surrogate :: "string \<Rightarrow> bool" where
  "has_surrogate (a # b # s) =
     ((a = CHR 0xED \<and> (0xA0::nat) \<le> of_char b \<and> (of_char b :: nat) \<le> 0xBF)
      \<or> has_surrogate (b # s))"
| "has_surrogate s = False"

text \<open>Writing the chunks in turn: the text that reaches the file, and the exception, if one
  was raised.\<close>

fun write_chunks :: "string list \<Rightarrow> string \<times> pyexc option" where
  "write_chunks [] = ([], None)"
| "write_chunks (chunk # chunks) =
     (if has_surrogate chunk then ([], Some UnicodeEncodeError)
      else (chunk @ fst (write_chunks chunks), snd (write_chunks chunks)))"

section \<open>The file system\<close>

text \<open>
  A path is the list of its components. The first component is the directory argument as
  it was given, uninterpreted (a run has one target, so two spellings of one directory never
  meet); the others are entry names. \<^verbatim>\<open>root_path / name\<close> appends a component.

  A file system is the list of its directories, in the order in which \<^verbatim>\<open>os.walk\<close>
  visits them (top-down), the contents of its regular files, and the paths that the process
  has no permission to open. The program creates and removes no directory, so the lazy walk
  of the source sees what a walk computed at the start sees.
\<close>

type_synonym path = "string list"

record filesystem =
  dirs :: "path list"
  files :: "path \<rightharpoonup> string"
  denied :: "path set"

definition Path :: "string \<Rightarrow> path" where
  "Path s = [s]"

definition joinpath :: "path \<Rightarrow> string \<Rightarrow> path" where
  "joinpath root_path name = root_path @ [name]"

definition path_exists :: "filesystem \<Rightarrow> path \<Rightarrow> bool" where
  "path_exists fs p = (p \<in> set (dirs fs) \<or> files fs p \<noteq> None)"

definition os_walk :: "filesystem \<Rightarrow> path \<Rightarrow> path list" where
  "os_walk fs directory = filter (prefix directory) (dirs fs)"

text \<open>\<^verbatim>\<open>open(p, 'r')\<close> and reading the whole file.\<close>

definition open_read :: "filesystem \<Rightarrow> path \<Rightarrow> pyexc + string" where
  "open_read fs p =
     (if p \<in> set (dirs fs) then Inl IsADirectoryError
      else if p \<in> denied fs then Inl PermissionError
      else case files fs p of None \<Rightarrow> Inl FileNotFoundError | Some text \<Rightarrow> Inr text)"

text \<open>
  \<^verbatim>\<open>open(p, 'w')\<close> in an existing directory: the file is created, or emptied when it
  exists, unless \<open>p\<close> is a directory or may not be opened.
\<close>

definition open_w :: "filesystem \<Rightarrow> path \<Rightarrow> pyexc + filesystem" where
  "open_w fs p =
     (if p \<in> set (dirs fs) then Inl IsADirectoryError
      else if p \<in> denied fs then Inl PermissionError
      else Inr (fs\<lparr>files := (files fs)(p \<mapsto> [])\<rparr>))"

text \<open>Closing a file opened for writing, after \<open>text\<close> was written to it.\<close>

definition close_w :: "filesystem \<Rightarrow> path \<Rightarrow> string \<Rightarrow> filesystem" where
  "close_w fs p text = fs\<lparr>files := (files fs)(p \<mapsto> text)\<rparr>"

section \<open>Console output\<close>

text \<open>
  One constructor for each \<^verbatim>\<open>print\<close> of the source (its texts are Chinese), carrying
  the values the text is formatted from.
\<close>

datatype msg =
    MsgDirMissing path
  | MsgGenerated path
  | MsgFormat format_type
  | MsgTextureCount nat
  | MsgTexture nat json
  | MsgEllipsis
  | MsgSkipped path
  | MsgSkipReason
  | MsgDetected format_type
  | MsgJSONError path
  | MsgProcessError path
  | MsgErrorDetail pyexc
  | MsgRule
  | MsgStatsHeader
  | MsgStatProcessed nat
  | MsgStatSkipped nat
  | MsgStatErrors nat
  | MsgStatTotal nat
  | MsgPreviewHeader
  | MsgPreviewItem nat path
  | MsgPreviewFormat format_type
  | MsgPreviewCount nat
  | MsgPreviewTarget path
  | MsgFoundTotal nat
  | MsgPrompt
  | MsgStart
  | MsgDoubleRule
  | MsgCancelled
  | MsgNothingFound
  | MsgTitle
  | MsgUsage
  | MsgTargetDir string
  | MsgSupported

section \<open>The generation walk\<close>

text \<open>
  The state of \<^verbatim>\<open>generate_textures_cache\<close>: the file system, the three counters and
  the lines printed so far. \<open>written\<close> is the log of the files that were opened for
  writing, each with its path and the text it held when it was closed.
\<close>

record run =
  fsys :: filesystem
  written :: "(path \<times> string) list"
  processed_count :: nat
  skipped_count :: nat
  error_count :: nat
  out :: "msg list"

text \<open>The listing of the textures: all of them up to five, else the first two and the last.\<close>

definition texture_lines :: "json list \<Rightarrow> msg list" where
  "texture_lines textures =
     (if length textures \<le> 5
      then map (\<lambda>(i, texture). MsgTexture (i + 1) texture) (enumerate 0 textures)
      else [MsgTexture 1 (textures ! 0), MsgTexture 2 (textures ! 1), MsgEllipsis,
            MsgTexture (length textures) (last textures)])"

text \<open>\<^verbatim>\<open>with open(p, 'r', encoding='utf-8') as f: data = json.load(f)\<close>; \<open>json_load\<close> is
  the library's parser, from the text of a file to the document or the exception.\<close>

definition load_json :: "(string \<Rightarrow> pyexc + json) \<Rightarrow> filesystem \<Rightarrow> path \<Rightarrow> pyexc + json" where
  "load_json json_load fs p =
     (case open_read fs p of Inl e \<Rightarrow> Inl e | Inr text \<Rightarrow> json_load text)"

text \<open>
  The body of the \<^verbatim>\<open>try\<close> for one directory: \<open>Inr\<close> is the state at its end, \<open>Inl\<close>
  the exception raised with the state at that moment. The \<^verbatim>\<open>with\<close> statement closes the
  cache file also when the dump raises, so the file then keeps what was written before.
\<close>

definition try_generate :: "(string \<Rightarrow> pyexc + json) \<Rightarrow> path \<Rightarrow> run \<Rightarrow> (pyexc \<times> run) + run" where
  "try_generate json_load root_path st =
     (let index_json_path = joinpath root_path ''index.json'' in
      case load_json json_load (fsys st) index_json_path of
        Inl e \<Rightarrow> Inl (e, st)
      | Inr data \<Rightarrow>
          (case extract_textures_from_json data of
             Inl e \<Rightarrow> Inl (e, st)
           | Inr (Some textures, format_type) \<Rightarrow>
               (let cache_path = joinpath root_path ''textures.cache'' in
                case open_w (fsys st) cache_path of
                  Inl e \<Rightarrow> Inl (e, st)
                | Inr fs1 \<Rightarrow>
                    (let (text, raised) = write_chunks (iterencode 0 (JArr textures));
                         st1 = st\<lparr>fsys := close_w fs1 cache_path text,
                                  written := written st @ [(cache_path, text)]\<rparr>
                     in case raised of
                          Some e \<Rightarrow> Inl (e, st1)
                        | None \<Rightarrow>
                            Inr (st1\<lparr>out := out st1 @ [MsgGenerated cache_path,
                                                        MsgFormat format_type,
                                                        MsgTextureCount (length textures)]
                                                     @ texture_lines textures,
                                     processed_count := processed_count st1 + 1\<rparr>)))
           | Inr (None, format_type) \<Rightarrow>
               Inr (st\<lparr>out := out st @ [MsgSkipped index_json_path, MsgSkipReason,
                                        MsgDetected format_type],
                       skipped_count := skipped_count st + 1\<rparr>)))"

text \<open>The body of the \<^verbatim>\<open>for\<close> loop: the \<^verbatim>\<open>try\<close> with its two handlers, for a
  directory that has an \<^verbatim>\<open>index.json\<close>.\<close>

definition visit :: "(string \<Rightarrow> pyexc + json) \<Rightarrow> path \<Rightarrow> run \<Rightarrow> run" where
  "visit json_load root_path st =
     (let index_json_path = joinpath root_path ''index.json'' in
      if path_exists (fsys st) index_json_path then
        (let st' =
           (case try_generate json_load root_path st of
              Inr st' \<Rightarrow> st'
            | Inl (JSONDecodeError, st1) \<Rightarrow>
                st1\<lparr>out := out st1 @ [MsgJSONError index_json_path,
                                        MsgErrorDetail JSONDecodeError],
                    error_count := error_count st1 + 1\<rparr>
            | Inl (e, st1) \<Rightarrow>
                st1\<lparr>out := out st1 @ [MsgProcessError index_json_path, MsgErrorDetail e],
                    error_count := error_count st1 + 1\<rparr>)
         in st'\<lparr>out := out st' @ [MsgRule]\<rparr>)
      else st)"

fun walk_loop :: "(string \<Rightarrow> pyexc + json) \<Rightarrow> path list \<Rightarrow> run \<Rightarrow> run" where
  "walk_loop json_load [] st = st"
| "walk_loop json_load (root_path # rest) st = walk_loop json_load rest (visit json_load root_path st)"

text \<open>The state before the walk: the three counters at zero, nothing written or printed.\<close>

definition start :: "filesystem \<Rightarrow> run" where
  "start fs0 = \<lparr>fsys = fs0, written = [], processed_count = 0, skipped_count = 0,
                 error_count = 0, out = []\<rparr>"

definition generate_textures_cache :: "(string \<Rightarrow> pyexc + json) \<Rightarrow> filesystem \<Rightarrow> path \<Rightarrow> run" where
  "generate_textures_cache json_load fs0 directory =
     (if \<not> path_exists fs0 directory then
        (start fs0)\<lparr>out := [MsgDirMissing directory]\<rparr>
      else
        (let st = walk_loop json_load (os_walk fs0 directory) (start fs0)
         in st\<lparr>out := out st @ [MsgStatsHeader, MsgStatProcessed (processed_count st),
                                 MsgStatSkipped (skipped_count st), MsgStatErrors (error_count st),
                                 MsgStatTotal (processed_count st + skipped_count st + error_count st)]\<rparr>))"

section \<open>Preview mode\<close>

record file_info =
  info_path :: path
  info_format :: format_type
  texture_count :: nat
  info_textures :: "json list"

text \<open>The body of the scanning loop: the bare \<^verbatim>\<open>except: pass\<close> drops every exception.\<close>

definition scan :: "(string \<Rightarrow> pyexc + json) \<Rightarrow> filesystem \<Rightarrow> path \<Rightarrow> file_info list \<Rightarrow> file_info list" where
  "scan json_load fs root_path found_files =
     (let index_json_path = joinpath root_path ''index.json'' in
      if path_exists fs index_json_path then
        (case load_json json_load fs index_json_path of
           Inl e \<Rightarrow> found_files
         | Inr data \<Rightarrow>
             (case extract_textures_from_json data of
                Inl e \<Rightarrow> found_files
              | Inr (Some textures, format_type) \<Rightarrow>
                  found_files @ [\<lparr>info_path = index_json_path, info_format = format_type,
                                  texture_count = length textures, info_textures = textures\<rparr>]
              | Inr (None, format_type) \<Rightarrow> found_files))
      else found_files)"

fun scan_loop :: "(string \<Rightarrow> pyexc + json) \<Rightarrow> filesystem \<Rightarrow> path list \<Rightarrow> file_info list \<Rightarrow> file_info list" where
  "scan_loop json_load fs [] found_files = found_files"
| "scan_loop json_load fs (root_path # rest) found_files =
     scan_loop json_load fs rest (scan json_load fs root_path found_files)"

text \<open>
  \<^verbatim>\<open>str.strip()\<close> removes the white space of \<^verbatim>\<open>str.isspace\<close> at both ends. On the
  bytes of UTF-8 these are the encodings below (U+0009 to U+000D, U+001C to U+0020, U+0085,
  U+00A0, U+1680, U+2000 to U+200A, U+2028, U+2029, U+202F, U+205F, U+3000).
\<close>

definition whitespace :: "string list" where
  "whitespace =
     [[CHR 0x09], [CHR 0x0A], [CHR 0x0B], [CHR 0x0C], [CHR 0x0D],
      [CHR 0x1C], [CHR 0x1D], [CHR 0x1E], [CHR 0x1F], [CHR 0x20],
      [CHR 0xC2, CHR 0x85], [CHR 0xC2, CHR 0xA0],
      [CHR 0xE1, CHR 0x9A, CHR 0x80],
      [CHR 0xE2, CHR 0x80, CHR 0x80], [CHR 0xE2, CHR 0x80, CHR 0x81],
      [CHR 0xE2, CHR 0x80, CHR 0x82], [CHR 0xE2, CHR 0x80, CHR 0x83],
      [CHR 0xE2, CHR 0x80, CHR 0x84], [CHR 0xE2, CHR 0x80, CHR 0x85],
      [CHR 0xE2, CHR 0x80, CHR 0x86], [CHR 0xE2, CHR 0x80, CHR 0x87],
      [CHR 0xE2, CHR 0x80, CHR 0x88], [CHR 0xE2, CHR 0x80, CHR 0x89],
      [CHR 0xE2, CHR 0x80, CHR 0x8A],
      [CHR 0xE2, CHR 0x80, CHR 0xA8], [CHR 0xE2, CHR 0x80, CHR 0xA9],
      [CHR 0xE2, CHR 0x80, CHR 0xAF],
      [CHR 0xE2, CHR 0x81, CHR 0x9F],
      [CHR 0xE3, CHR 0x80, CHR 0x80]]"

function lstrip_with :: "string list \<Rightarrow> string \<Rightarrow> string" where
  "lstrip_with ws s =
     (case find (\<lambda>w. w \<noteq> [] \<and> prefix w s) ws of
        None \<Rightarrow> s
      | Some w \<Rightarrow> lstrip_with ws (drop (length w) s))"
  by pat_completeness auto
termination
  by (relation "measure (\<lambda>(ws, s). length s)") (auto simp: find_Some_iff prefix_def)

definition py_strip :: "string \<Rightarrow> string" where
  "py_strip s = rev (lstrip_with (map rev whitespace) (rev (lstrip_with whitespace s)))"

text \<open>
  \<^verbatim>\<open>str.lower()\<close> on the ASCII letters. It also changes capitals outside ASCII, but to
  none of the characters of the three accepted answers, so the test of the answer is the
  same.
\<close>

definition py_lower :: "string \<Rightarrow> string" where
  "py_lower s =
     map (\<lambda>c. case map_of (zip ''ABCDEFGHIJKLMNOPQRSTUVWXYZ'' ''abcdefghijklmnopqrstuvwxyz'') c of
                 None \<Rightarrow> c | Some l \<Rightarrow> l) s"

text \<open>The three accepted answers: \<^verbatim>\<open>y\<close>, \<^verbatim>\<open>yes\<close> and the Chinese word for yes (U+662F).\<close>

definition affirmative :: "string \<Rightarrow> bool" where
  "affirmative response =
     (py_lower (py_strip response) \<in> set [''y'', ''yes'', [CHR 0xE6, CHR 0x98, CHR 0xAF]])"

text \<open>
  What a call leaves behind: the file system, the log of the files written, the lines
  printed, whether \<^verbatim>\<open>input\<close> was called, and the exception that ended the call, if
  one did.
\<close>

record outcome =
  final_fs :: filesystem
  writes :: "(path \<times> string) list"
  printed :: "msg list"
  prompted :: bool
  raised :: "pyexc option"

definition preview_lines :: "file_info list \<Rightarrow> msg list" where
  "preview_lines found_files =
     concat (map (\<lambda>(i, file_info).
                    [MsgPreviewItem i (info_path file_info),
                     MsgPreviewFormat (info_format file_info),
                     MsgPreviewCount (texture_count file_info),
                     MsgPreviewTarget (joinpath (butlast (info_path file_info)) ''textures.cache'')])
                 (enumerate 1 found_files))
     @ [MsgFoundTotal (length found_files)]"

text \<open>
  \<open>stdin\<close> is the line \<^verbatim>\<open>input\<close> reads, without its newline; \<open>None\<close> is the end of the
  input, where \<^verbatim>\<open>input\<close> raises \<^verbatim>\<open>EOFError\<close>, which nothing catches.
\<close>

definition preview_mode :: "(string \<Rightarrow> pyexc + json) \<Rightarrow> filesystem \<Rightarrow> path \<Rightarrow> string option \<Rightarrow> outcome" where
  "preview_mode json_load fs0 directory stdin =
     (if \<not> path_exists fs0 directory then
        \<lparr>final_fs = fs0, writes = [], printed = [MsgDirMissing directory],
         prompted = False, raised = None\<rparr>
      else
        (let found_files = scan_loop json_load fs0 (os_walk fs0 directory) [];
             header = [MsgPreviewHeader, MsgRule]
         in if found_files \<noteq> [] then
              (let listing = header @ preview_lines found_files @ [MsgPrompt] in
               case stdin of
                 None \<Rightarrow>
                   \<lparr>final_fs = fs0, writes = [], printed = listing,
                    prompted = True, raised = Some EOFError\<rparr>
               | Some response \<Rightarrow>
                   if affirmative response then
                     (let st = generate_textures_cache json_load fs0 directory in
                      \<lparr>final_fs = fsys st, writes = written st,
                       printed = listing @ [MsgStart, MsgDoubleRule] @ out st,
                       prompted = True, raised = None\<rparr>)
                   else
                     \<lparr>final_fs = fs0, writes = [], printed = listing @ [MsgCancelled],
                      prompted = True, raised = None\<rparr>)
            else
              \<lparr>final_fs = fs0, writes = [], printed = header @ [MsgNothingFound],
               prompted = False, raised = None\<rparr>))"

section \<open>The command line\<close>

definition startswith_dash :: "string \<Rightarrow> bool" where
  "startswith_dash arg = (case arg of [] \<Rightarrow> False | c # rest \<Rightarrow> c = CHR ''-'')"

text \<open>
  \<open>argv\<close> is \<^verbatim>\<open>sys.argv\<close>, the script's name first. The help is printed when the first
  argument is one of the two help flags; the preview flags are looked up in the whole of
  \<open>argv\<close>; the target is the first argument that does not start with a dash.
\<close>

definition run_target :: "(string \<Rightarrow> pyexc + json) \<Rightarrow> filesystem \<Rightarrow> string \<Rightarrow> bool \<Rightarrow> string option \<Rightarrow> outcome" where
  "run_target json_load fs0 target_directory preview stdin =
     (let intro = [MsgTargetDir target_directory, MsgSupported, MsgRule] in
      if preview then
        (let r = preview_mode json_load fs0 (Path target_directory) stdin in
         r\<lparr>printed := intro @ printed r\<rparr>)
      else
        (let st = generate_textures_cache json_load fs0 (Path target_directory) in
         \<lparr>final_fs = fsys st, writes = written st, printed = intro @ out st,
          prompted = False, raised = None\<rparr>))"

definition main :: "(string \<Rightarrow> pyexc + json) \<Rightarrow> filesystem \<Rightarrow> string list \<Rightarrow> string option \<Rightarrow> outcome" where
  "main json_load fs0 argv stdin =
     (let r =
        (if length argv > 1 then
           (if argv ! 1 \<in> set [''-h'', ''--help''] then
              \<lparr>final_fs = fs0, writes = [], printed = [MsgUsage],
               prompted = False, raised = None\<rparr>
            else
              (let preview = (''--preview'' \<in> set argv \<or> ''-p'' \<in> set argv);
                   target_directory =
                     (case find (\<lambda>arg. \<not> startswith_dash arg) (tl argv) of
                        None \<Rightarrow> ''.'' | Some arg \<Rightarrow> arg)
               in run_target json_load fs0 target_directory preview stdin))
         else run_target json_load fs0 ''.'' False stdin)
      in r\<lparr>printed := [MsgTitle, MsgDoubleRule] @ printed r\<rparr>)"

section \<open>Example inputs\<close>

text \<open>
  \<^verbatim>\<open>json.load\<close> on the seven texts of the examples: a standard descriptor with two
  textures, a Cubism 3 descriptor, a standard descriptor with no texture, a dict of neither
  shape, a malformed text (the last branch, which no other text of the examples reaches),
  the array that holds the string \<^verbatim>\<open>textures\<close>, and a standard descriptor whose second
  texture starts with the escape of the lone surrogate U+D800.
\<close>

definition quoted :: "string \<Rightarrow> string" where
  "quoted s = [CHR 0x22] @ s @ [CHR 0x22]"

definition example_load :: "string \<Rightarrow> pyexc + json" where
  "example_load content =
     (if content = ''{'' @ quoted ''textures'' @ '': ['' @ quoted ''a.png'' @ '', ''
                     @ quoted ''b.png'' @ '']}''
        then Inr (JObj [(''textures'', JArr [JStr ''a.png'', JStr ''b.png''])])
      else if content = ''{'' @ quoted ''FileReferences'' @ '': {'' @ quoted ''Textures'' @ '': [''
                          @ quoted ''t0.png'' @ '']}}''
        then Inr (JObj [(''FileReferences'', JObj [(''Textures'', JArr [JStr ''t0.png''])])])
      else if content = ''{'' @ quoted ''textures'' @ '': []}''
        then Inr (JObj [(''textures'', JArr [])])
      else if content = ''{'' @ quoted ''foo'' @ '': '' @ quoted ''bar'' @ ''}''
        then Inr (JObj [(''foo'', JStr ''bar'')])
      else if content = ''['' @ quoted ''textures'' @ '']''
        then Inr (JArr [JStr ''textures''])
      else if content = ''{'' @ quoted ''textures'' @ '': ['' @ quoted ''a.png'' @ '', ''
                          @ quoted ([CHR 0x5C] @ ''ud800.png'') @ '']}''
        then Inr (JObj [(''textures'',
                         JArr [JStr ''a.png'', JStr ([CHR 0xED, CHR 0xA0, CHR 0x80] @ ''.png'')])])
      else Inl JSONDecodeError)"

text \<open>A tree with one descriptor of each kind, and a directory without a descriptor.\<close>

definition example_fs :: filesystem where
  "example_fs =
     \<lparr>dirs = [[''models''], [''models'', ''a''], [''models'', ''b''], [''models'', ''c''],
              [''models'', ''d''], [''models'', ''e''], [''models'', ''f''], [''models'', ''g'']],
      files = map_of
        [([''models'', ''a'', ''index.json''],
            ''{'' @ quoted ''textures'' @ '': ['' @ quoted ''a.png'' @ '', ''
              @ quoted ''b.png'' @ '']}''),
         ([''models'', ''b'', ''index.json''],
            ''{'' @ quoted ''FileReferences'' @ '': {'' @ quoted ''Textures'' @ '': [''
              @ quoted ''t0.png'' @ '']}}''),
         ([''models'', ''c'', ''index.json''], ''{'' @ quoted ''textures'' @ '': []}''),
         ([''models'', ''d'', ''index.json''],
            ''{'' @ quoted ''foo'' @ '': '' @ quoted ''bar'' @ ''}''),
         ([''models'', ''e'', ''index.json''], ''{oops''),
         ([''models'', ''f'', ''index.json''], ''['' @ quoted ''textures'' @ '']''),
         ([''models'', ''g'', ''readme.txt''], ''no descriptor here'')],
      denied = {}\<rparr>"


text \<open>A directory whose descriptor is recognized, with a texture name that UTF-8 cannot
  encode.\<close>

definition surrogate_fs :: filesystem where
  "surrogate_fs =
     \<lparr>dirs = [[''models'']],
      files = map_of
        [([''models'', ''index.json''],
            ''{'' @ quoted ''textures'' @ '': ['' @ quoted ''a.png'' @ '', ''
              @ quoted ([CHR 0x5C] @ ''ud800.png'') @ '']}'')],
      denied = {}\<rparr>"

section \<open>What the walk does in one directory\<close>

text \<open>
  The five ways the loop body can go for a directory: no \<^verbatim>\<open>index.json\<close>; an exception
  before anything was written (from the read, the parser, the extractor or the open of the
  cache file); an exception from the dump, with the text written before it; a list of
  textures, written whole; no list, skipped.
\<close>

datatype verdict =
    Absent
  | Failed pyexc
  | Truncated string pyexc
  | Recognized "json list" format_type
  | Unrecognized format_type

definition verdict_of :: "(string \<Rightarrow> pyexc + json) \<Rightarrow> filesystem \<Rightarrow> path \<Rightarrow> verdict" where
  "verdict_of json_load fs root_path =
     (if \<not> path_exists fs (joinpath root_path ''index.json'') then Absent
      else case load_json json_load fs (joinpath root_path ''index.json'') of
        Inl e \<Rightarrow> Failed e
      | Inr data \<Rightarrow>
          (case extract_textures_from_json data of
             Inl e \<Rightarrow> Failed e
           | Inr (Some textures, format_type) \<Rightarrow>
               (case open_w fs (joinpath root_path ''textures.cache'') of
                  Inl e \<Rightarrow> Failed e
                | Inr fs1 \<Rightarrow>
                    (case snd (write_chunks (iterencode 0 (JArr textures))) of
                       Some e \<Rightarrow> Truncated (fst (write_chunks (iterencode 0 (JArr textures)))) e
                     | None \<Rightarrow> Recognized textures format_type))
           | Inr (None, format_type) \<Rightarrow> Unrecognized format_type))"

definition fail_lines :: "path \<Rightarrow> pyexc \<Rightarrow> msg list" where
  "fail_lines p e =
     (if e = JSONDecodeError then [MsgJSONError p, MsgErrorDetail JSONDecodeError]
      else [MsgProcessError p, MsgErrorDetail e])"

text \<open>Two file systems with the same directories, permissions and descriptors.\<close>

definition same_inputs :: "filesystem \<Rightarrow> filesystem \<Rightarrow> bool" where
  "same_inputs fs fs' =
     (dirs fs = dirs fs' \<and> denied fs = denied fs' \<and>
      (\<forall>r. files fs (joinpath r ''index.json'') = files fs' (joinpath r ''index.json'')))"

text \<open>All of a state but its file system.\<close>

definition report :: "run \<Rightarrow> (path \<times> string) list \<times> nat \<times> nat \<times> nat \<times> msg list" where
  "report st = (written st, processed_count st, skipped_count st, error_count st, out st)"

text \<open>The files of a state are those of \<open>f0\<close> with the logged writes replayed over them.\<close>

definition replayed :: "(path \<rightharpoonup> string) \<Rightarrow> run \<Rightarrow> bool" where
  "replayed f0 st = (files (fsys st) = f0 ++ map_of (rev (written st)))"

section \<open>The extractor on a dict\<close>

lemma has_typed_key_dict:
  "has_typed_key key isinst (JObj kvs) =
     Inr (case map_of kvs key of None \<Rightarrow> None | Some v \<Rightarrow> if isinst v then Some v else None)"
  by (simp add: has_typed_key_def split: option.splits)

lemma extract_dict:
  "extract_textures_from_json (JObj kvs) =
     (case map_of kvs ''textures'' of
        Some (JArr textures) \<Rightarrow> Inr (Some textures, Standard_format)
      | _ \<Rightarrow>
        (case map_of kvs ''FileReferences'' of
           Some (JObj file_refs) \<Rightarrow>
             (case map_of file_refs ''Textures'' of
                Some (JArr textures) \<Rightarrow> Inr (Some textures, Cubism3_format)
              | _ \<Rightarrow> Inr (None, Unknown_format))
         | _ \<Rightarrow> Inr (None, Unknown_format)))"
  by (simp add: extract_textures_from_json_def has_typed_key_dict
           split: option.splits json.splits)

text \<open>
  C1. A dict whose key \<^verbatim>\<open>textures\<close> holds a list: the extractor returns that list as it
  is, order and duplicates kept, with the label of the standard format, whatever the other
  keys are, a well-formed \<^verbatim>\<open>FileReferences\<close> with \<^verbatim>\<open>Textures\<close> among them.
\<close>

theorem standard_shape_first:
  "map_of kvs ''textures'' = Some (JArr textures) \<Longrightarrow>
   extract_textures_from_json (JObj kvs) = Inr (Some textures, Standard_format)"
  by (simp add: extract_dict)

theorem standard_shape_first_witness:
  "map_of [(''FileReferences'', JObj [(''Textures'', JArr [JStr ''t0.png''])]),
           (''textures'', JArr [JStr ''b.png'', JStr ''a.png'', JStr ''b.png''])] ''textures''
     = Some (JArr [JStr ''b.png'', JStr ''a.png'', JStr ''b.png'']) \<and>
   extract_textures_from_json
     (JObj [(''FileReferences'', JObj [(''Textures'', JArr [JStr ''t0.png''])]),
            (''textures'', JArr [JStr ''b.png'', JStr ''a.png'', JStr ''b.png''])])
     = Inr (Some [JStr ''b.png'', JStr ''a.png'', JStr ''b.png''], Standard_format)"
  using standard_shape_first
    [of "[(''FileReferences'', JObj [(''Textures'', JArr [JStr ''t0.png''])]),
          (''textures'', JArr [JStr ''b.png'', JStr ''a.png'', JStr ''b.png''])]"
        "[JStr ''b.png'', JStr ''a.png'', JStr ''b.png'']"]
  by simp

text \<open>
  C2. A dict where \<^verbatim>\<open>textures\<close> is absent or holds no list, and \<^verbatim>\<open>FileReferences\<close>
  holds a dict whose \<^verbatim>\<open>Textures\<close> holds a list: the extractor returns the nested list
  with the label of the Cubism 3 format.
\<close>

theorem cubism_shape_second:
  "\<not> (\<exists>xs. map_of kvs ''textures'' = Some (JArr xs)) \<Longrightarrow>
   map_of kvs ''FileReferences'' = Some (JObj file_refs) \<Longrightarrow>
   map_of file_refs ''Textures'' = Some (JArr textures) \<Longrightarrow>
   extract_textures_from_json (JObj kvs) = Inr (Some textures, Cubism3_format)"
  by (simp add: extract_dict split: option.splits json.splits)

theorem cubism_shape_second_witness:
  "\<not> (\<exists>xs. map_of [(''FileReferences'', JObj [(''Textures'', JArr [JStr ''t0.png''])])]
               ''textures'' = Some (JArr xs)) \<and>
   map_of [(''FileReferences'', JObj [(''Textures'', JArr [JStr ''t0.png''])])] ''FileReferences''
     = Some (JObj [(''Textures'', JArr [JStr ''t0.png''])]) \<and>
   map_of [(''Textures'', JArr [JStr ''t0.png''])] ''Textures'' = Some (JArr [JStr ''t0.png'']) \<and>
   extract_textures_from_json
     (JObj [(''FileReferences'', JObj [(''Textures'', JArr [JStr ''t0.png''])])])
     = Inr (Some [JStr ''t0.png''], Cubism3_format)"
  using cubism_shape_second
    [of "[(''FileReferences'', JObj [(''Textures'', JArr [JStr ''t0.png''])])]"
        "[(''Textures'', JArr [JStr ''t0.png''])]" "[JStr ''t0.png'']"]
  by simp

text \<open>
  C4. On a dict the extractor never raises. When \<^verbatim>\<open>textures\<close> holds no list, and
  \<^verbatim>\<open>FileReferences\<close> holds no dict whose \<^verbatim>\<open>Textures\<close> holds a list (the keys may be
  there with values of another type), it returns \<^verbatim>\<open>None\<close> with the label of the unknown
  format.
\<close>

theorem wrong_type_falls_through:
  "(\<exists>r. extract_textures_from_json (JObj kvs) = Inr r) \<and>
   (\<not> (\<exists>xs. map_of kvs ''textures'' = Some (JArr xs)) \<and>
    \<not> (\<exists>file_refs ys. map_of kvs ''FileReferences'' = Some (JObj file_refs) \<and>
           map_of file_refs ''Textures'' = Some (JArr ys))
    \<longrightarrow> extract_textures_from_json (JObj kvs) = Inr (None, Unknown_format))"
  by (simp add: extract_dict split: option.splits json.splits)

theorem wrong_type_falls_through_witness:
  "\<not> (\<exists>xs. map_of [(''textures'', JStr ''a.png''),
                    (''FileReferences'', JObj [(''Textures'', JObj [])])] ''textures''
            = Some (JArr xs)) \<and>
   \<not> (\<exists>file_refs ys.
         map_of [(''textures'', JStr ''a.png''),
                 (''FileReferences'', JObj [(''Textures'', JObj [])])] ''FileReferences''
           = Some (JObj file_refs) \<and>
         map_of file_refs ''Textures'' = Some (JArr ys)) \<and>
   extract_textures_from_json
     (JObj [(''textures'', JStr ''a.png''),
            (''FileReferences'', JObj [(''Textures'', JObj [])])])
     = Inr (None, Unknown_format)"
  using wrong_type_falls_through
    [of "[(''textures'', JStr ''a.png''),
          (''FileReferences'', JObj [(''Textures'', JObj [])])]"]
  by auto

section \<open>The loop body, case by case\<close>

lemma write_chunks_whole: "snd (write_chunks chunks) = None \<Longrightarrow> fst (write_chunks chunks) = concat chunks"
  by (induction chunks) (auto split: if_splits)


lemma open_w_Inr:
  "open_w fs p = Inr fs1 \<Longrightarrow> close_w fs1 p content = fs\<lparr>files := (files fs)(p \<mapsto> content)\<rparr>"
  by (auto simp: open_w_def close_w_def split: if_splits)

lemma visit_verdict:
  "visit json_load root_path st =
     (case verdict_of json_load (fsys st) root_path of
        Absent \<Rightarrow> st
      | Failed e \<Rightarrow>
          st\<lparr>out := out st @ fail_lines (joinpath root_path ''index.json'') e @ [MsgRule],
             error_count := error_count st + 1\<rparr>
      | Truncated content e \<Rightarrow>
          st\<lparr>fsys := (fsys st)\<lparr>files := (files (fsys st))
                         (joinpath root_path ''textures.cache'' \<mapsto> content)\<rparr>,
             written := written st @ [(joinpath root_path ''textures.cache'', content)],
             out := out st @ fail_lines (joinpath root_path ''index.json'') e @ [MsgRule],
             error_count := error_count st + 1\<rparr>
      | Recognized textures format_type \<Rightarrow>
          st\<lparr>fsys := (fsys st)\<lparr>files := (files (fsys st))
                         (joinpath root_path ''textures.cache'' \<mapsto> json_dump (JArr textures))\<rparr>,
             written := written st
                        @ [(joinpath root_path ''textures.cache'', json_dump (JArr textures))],
             out := out st @ [MsgGenerated (joinpath root_path ''textures.cache''),
                              MsgFormat format_type, MsgTextureCount (length textures)]
                           @ texture_lines textures @ [MsgRule],
             processed_count := processed_count st + 1\<rparr>
      | Unrecognized format_type \<Rightarrow>
          st\<lparr>out := out st @ [MsgSkipped (joinpath root_path ''index.json''), MsgSkipReason,
                               MsgDetected format_type, MsgRule],
             skipped_count := skipped_count st + 1\<rparr>)"
proof (cases "path_exists (fsys st) (joinpath root_path ''index.json'')")
  case False
  then show ?thesis
    by (simp add: visit_def verdict_of_def)
next
  case ex: True
  show ?thesis
  proof (cases "load_json json_load (fsys st) (joinpath root_path ''index.json'')")
    case (Inl e)
    with ex show ?thesis
      by (cases e) (simp_all add: visit_def verdict_of_def try_generate_def fail_lines_def)
  next
    case l: (Inr data)
    show ?thesis
    proof (cases "extract_textures_from_json data")
      case (Inl e)
      with ex l show ?thesis
        by (cases e) (simp_all add: visit_def verdict_of_def try_generate_def fail_lines_def)
    next
      case (Inr r)
      obtain found format_type where r: "r = (found, format_type)"
        by (cases r)
      show ?thesis
      proof (cases found)
        case None
        with ex l Inr r show ?thesis
          by (simp add: visit_def verdict_of_def try_generate_def)
      next
        case (Some textures)
        show ?thesis
        proof (cases "open_w (fsys st) (joinpath root_path ''textures.cache'')")
          case (Inl e)
          with ex l Inr r Some show ?thesis
            by (cases e) (simp_all add: visit_def verdict_of_def try_generate_def fail_lines_def)
        next
          case o: (Inr fs1)
          show ?thesis
          proof (cases "snd (write_chunks (iterencode 0 (JArr textures)))")
            case None
            with ex l Inr r Some o show ?thesis
              by (simp add: visit_def verdict_of_def try_generate_def Let_def case_prod_beta
                    open_w_Inr[OF o] write_chunks_whole[OF None] json_dump_def
                    del: iterencode.simps)
          next
            case (Some e)
            with ex l Inr r \<open>found = Some textures\<close> o show ?thesis
              by (cases e)
                 (simp_all add: visit_def verdict_of_def try_generate_def Let_def case_prod_beta
                    open_w_Inr[OF o] fail_lines_def del: iterencode.simps)
          qed
        qed
      qed
    qed
  qed
qed

lemma verdict_Absent:
  "verdict_of json_load fs r = Absent \<longleftrightarrow> \<not> path_exists fs (joinpath r ''index.json'')"
  by (simp add: verdict_of_def split: sum.splits option.splits prod.splits)

lemma load_exists: "load_json json_load fs p = Inr data \<Longrightarrow> path_exists fs p"
  by (auto simp: load_json_def open_read_def path_exists_def split: if_splits option.splits)

lemma read_exists: "open_read fs p = Inr content \<Longrightarrow> path_exists fs p"
  by (auto simp: open_read_def path_exists_def split: if_splits option.splits)

lemma verdict_parse_error:
  assumes "open_read fs (joinpath r ''index.json'') = Inr content"
      and "json_load content = Inl e"
  shows "verdict_of json_load fs r = Failed e"
  using assms read_exists[OF assms(1)]
  by (simp add: verdict_of_def load_json_def)


lemma write_chunks_empty: "write_chunks (iterencode 0 (JArr [])) = (''[]'', None)"
  by simp

section \<open>What the walk leaves unchanged\<close>

lemma same_inputs_refl: "same_inputs fs fs"
  by (simp add: same_inputs_def)

lemma same_inputs_trans: "same_inputs a b \<Longrightarrow> same_inputs b c \<Longrightarrow> same_inputs a c"
  by (simp add: same_inputs_def)

lemma same_inputs_sym: "same_inputs a b \<Longrightarrow> same_inputs b a"
  by (simp add: same_inputs_def)

lemma index_not_cache: "joinpath r ''index.json'' \<noteq> joinpath r' ''textures.cache''"
  by (simp add: joinpath_def)

lemma same_inputs_exists:
  "same_inputs fs fs' \<Longrightarrow>
   path_exists fs (joinpath r ''index.json'') = path_exists fs' (joinpath r ''index.json'')"
  by (simp add: same_inputs_def path_exists_def)

lemma verdict_same:
  assumes "same_inputs fs fs'"
  shows "verdict_of json_load fs r = verdict_of json_load fs' r"
proof -
  from assms have d: "dirs fs = dirs fs'" and n: "denied fs = denied fs'"
    and f: "files fs (joinpath r ''index.json'') = files fs' (joinpath r ''index.json'')"
    by (simp_all add: same_inputs_def)
  have "path_exists fs (joinpath r ''index.json'') = path_exists fs' (joinpath r ''index.json'')"
    by (simp add: path_exists_def d f)
  moreover have "load_json json_load fs (joinpath r ''index.json'')
      = load_json json_load fs' (joinpath r ''index.json'')"
    by (simp add: load_json_def open_read_def d n f)
  ultimately show ?thesis
    by (simp add: verdict_of_def open_w_def d n split: sum.splits option.splits prod.splits)
qed

lemma visit_same_inputs: "same_inputs (fsys st) (fsys (visit json_load r st))"
  by (simp add: visit_verdict same_inputs_def index_not_cache split: verdict.splits)

lemma walk_same_inputs: "same_inputs (fsys st) (fsys (walk_loop json_load rs st))"
proof (induction rs arbitrary: st)
  case Nil
  show ?case by (simp add: same_inputs_refl)
next
  case (Cons r rs)
  have "same_inputs (fsys st) (fsys (visit json_load r st))"
    by (rule visit_same_inputs)
  moreover have "same_inputs (fsys (visit json_load r st))
      (fsys (walk_loop json_load rs (visit json_load r st)))"
    by (rule Cons.IH)
  ultimately show ?case
    by (simp add: same_inputs_trans)
qed

lemma visit_dirs: "dirs (fsys (visit json_load r st)) = dirs (fsys st)"
  using visit_same_inputs[of st json_load r] by (simp add: same_inputs_def)

lemma walk_dirs: "dirs (fsys (walk_loop json_load rs st)) = dirs (fsys st)"
  using walk_same_inputs[of st json_load rs] by (simp add: same_inputs_def)

lemma walk_denied: "denied (fsys (walk_loop json_load rs st)) = denied (fsys st)"
  using walk_same_inputs[of st json_load rs] by (simp add: same_inputs_def)

section \<open>The counters\<close>

lemma visit_one_counter:
  assumes "path_exists (fsys st) (joinpath r ''index.json'')"
  shows "(processed_count (visit json_load r st), skipped_count (visit json_load r st),
          error_count (visit json_load r st))
         \<in> {(processed_count st + 1, skipped_count st, error_count st),
            (processed_count st, skipped_count st + 1, error_count st),
            (processed_count st, skipped_count st, error_count st + 1)}"
  using assms verdict_Absent[of json_load "fsys st" r]
  by (cases "verdict_of json_load (fsys st) r") (simp_all add: visit_verdict)

lemma visit_counts:
  "processed_count (visit json_load r st) + skipped_count (visit json_load r st)
     + error_count (visit json_load r st)
   = processed_count st + skipped_count st + error_count st
     + (if path_exists (fsys st) (joinpath r ''index.json'') then 1 else 0)"
  using verdict_Absent[of json_load "fsys st" r]
  by (auto simp: visit_verdict split: verdict.splits)

lemma walk_counts:
  "processed_count (walk_loop json_load rs st) + skipped_count (walk_loop json_load rs st)
     + error_count (walk_loop json_load rs st)
   = processed_count st + skipped_count st + error_count st
     + length (filter (\<lambda>r. path_exists (fsys st) (joinpath r ''index.json'')) rs)"
proof (induction rs arbitrary: st)
  case Nil
  show ?case by simp
next
  case (Cons r rs)
  have "\<And>q. path_exists (fsys (visit json_load r st)) (joinpath q ''index.json'')
      = path_exists (fsys st) (joinpath q ''index.json'')"
    using same_inputs_exists[OF visit_same_inputs] by simp
  then show ?case
    using Cons.IH[of "visit json_load r st"] visit_counts[of json_load r st]
    by simp
qed

section \<open>A second walk\<close>

lemma visit_report:
  assumes "same_inputs (fsys st) (fsys st')" and "report st = report st'"
  shows "report (visit json_load r st) = report (visit json_load r st')"
  using assms verdict_same[OF assms(1), of json_load r]
  by (simp add: visit_verdict report_def split: verdict.splits)

lemma walk_report:
  assumes "same_inputs (fsys st) (fsys st')" and "report st = report st'"
  shows "report (walk_loop json_load rs st) = report (walk_loop json_load rs st')"
  using assms
proof (induction rs arbitrary: st st')
  case Nil
  then show ?case by simp
next
  case (Cons r rs)
  have "same_inputs (fsys (visit json_load r st)) (fsys (visit json_load r st'))"
    using Cons.prems(1) visit_same_inputs[of st json_load r] visit_same_inputs[of st' json_load r]
    by (meson same_inputs_sym same_inputs_trans)
  moreover have "report (visit json_load r st) = report (visit json_load r st')"
    using Cons.prems by (rule visit_report)
  ultimately show ?case
    using Cons.IH by simp
qed

lemma visit_replayed: "replayed f0 st \<Longrightarrow> replayed f0 (visit json_load r st)"
  by (simp add: visit_verdict replayed_def split: verdict.splits)

lemma walk_replayed: "replayed f0 st \<Longrightarrow> replayed f0 (walk_loop json_load rs st)"
  by (induction rs arbitrary: st) (simp_all add: visit_replayed)

lemma walk_files:
  assumes "written st = []"
  shows "files (fsys (walk_loop json_load rs st))
           = files (fsys st) ++ map_of (rev (written (walk_loop json_load rs st)))"
proof -
  have "replayed (files (fsys st)) st"
    by (simp add: replayed_def assms)
  then have "replayed (files (fsys st)) (walk_loop json_load rs st)"
    by (rule walk_replayed)
  then show ?thesis
    by (simp add: replayed_def)
qed

lemma run_eqI: "fsys a = fsys b \<Longrightarrow> report a = report b \<Longrightarrow> (a::run) = b"
  by (simp add: report_def)

lemma map_add_twice: "(f ++ m) ++ m = f ++ m"
  by (rule ext) (simp add: map_add_def split: option.splits)

lemma walk_again:
  assumes "written st0 = []"
  shows "walk_loop json_load rs (st0\<lparr>fsys := fsys (walk_loop json_load rs st0)\<rparr>)
           = walk_loop json_load rs st0"
    (is "?W' = ?W")
proof (rule run_eqI)
  have same: "same_inputs (fsys st0) (fsys ?W)"
    by (rule walk_same_inputs)
  have rep: "report ?W = report ?W'"
    by (rule walk_report) (use same in \<open>simp_all add: report_def\<close>)
  then show "report ?W' = report ?W" by simp
  have w: "written ?W' = written ?W"
    using rep by (simp add: report_def)
  have "files (fsys ?W') = files (fsys ?W) ++ map_of (rev (written ?W'))"
    using walk_files[of "st0\<lparr>fsys := fsys ?W\<rparr>" json_load rs] assms by simp
  also have "\<dots> = (files (fsys st0) ++ map_of (rev (written ?W))) ++ map_of (rev (written ?W))"
    using walk_files[OF assms, of json_load rs] w by simp
  also have "\<dots> = files (fsys ?W)"
    using walk_files[OF assms, of json_load rs] by (simp add: map_add_twice)
  finally have "files (fsys ?W') = files (fsys ?W)" .
  moreover have "dirs (fsys ?W') = dirs (fsys ?W)" and "denied (fsys ?W') = denied (fsys ?W)"
    by (simp_all add: walk_dirs walk_denied)
  ultimately show "fsys ?W' = fsys ?W"
    by simp
qed

lemma walk_keeps_existing:
  assumes "written st = []" and "path_exists (fsys st) p"
  shows "path_exists (fsys (walk_loop json_load rs st)) p"
  using assms(2) walk_files[OF assms(1), of json_load rs]
  by (auto simp: path_exists_def walk_dirs map_add_def split: option.splits)

section \<open>The generation walk, one descriptor at a time\<close>




text \<open>
  A run over \<open>surrogate_fs\<close>: the descriptor is recognized and the cache file is opened, the
  dump raises at the second texture, the file keeps the first chunk, and the descriptor is
  counted as an error.
\<close>

lemma surrogate_leaves_truncated_cache:
  "written (generate_textures_cache example_load surrogate_fs (Path ''models''))
     = [([''models'', ''textures.cache''], ''['' @ [CHR 0x0A] @ ''    '' @ quoted ''a.png'')] \<and>
   files (fsys (generate_textures_cache example_load surrogate_fs (Path ''models'')))
     [''models'', ''textures.cache''] = Some (''['' @ [CHR 0x0A] @ ''    '' @ quoted ''a.png'') \<and>
   processed_count (generate_textures_cache example_load surrogate_fs (Path ''models'')) = 0 \<and>
   skipped_count (generate_textures_cache example_load surrogate_fs (Path ''models'')) = 0 \<and>
   error_count (generate_textures_cache example_load surrogate_fs (Path ''models'')) = 1"
  by code_simp

text \<open>
  C5. A descriptor whose text the parser rejects with \<^verbatim>\<open>JSONDecodeError\<close>: the loop body
  writes nothing and leaves the file system as it was, adds one to the error counter and
  nothing to the two others, and the walk goes on with the directories that remain.
\<close>

theorem parse_error_counted_walk_continues:
  assumes "open_read (fsys st) (joinpath root_path ''index.json'') = Inr content"
      and "json_load content = Inl JSONDecodeError"
  shows "visit json_load root_path st =
           st\<lparr>out := out st @ [MsgJSONError (joinpath root_path ''index.json''),
                                 MsgErrorDetail JSONDecodeError, MsgRule],
              error_count := error_count st + 1\<rparr> \<and>
         written (visit json_load root_path st) = written st \<and>
         fsys (visit json_load root_path st) = fsys st \<and>
         error_count (visit json_load root_path st) = error_count st + 1 \<and>
         skipped_count (visit json_load root_path st) = skipped_count st \<and>
         processed_count (visit json_load root_path st) = processed_count st \<and>
         walk_loop json_load (root_path # rest) st =
           walk_loop json_load rest
             (st\<lparr>out := out st @ [MsgJSONError (joinpath root_path ''index.json''),
                                   MsgErrorDetail JSONDecodeError, MsgRule],
                error_count := error_count st + 1\<rparr>)"
proof -
  have "verdict_of json_load (fsys st) root_path = Failed JSONDecodeError"
    using assms by (rule verdict_parse_error)
  then have "visit json_load root_path st =
           st\<lparr>out := out st @ [MsgJSONError (joinpath root_path ''index.json''),
                                 MsgErrorDetail JSONDecodeError, MsgRule],
              error_count := error_count st + 1\<rparr>"
    by (simp add: visit_verdict fail_lines_def)
  then show ?thesis
    by simp
qed

theorem parse_error_counted_walk_continues_witness:
  "open_read (fsys (start example_fs)) (joinpath [''models'', ''e''] ''index.json'') = Inr ''{oops'' \<and>
   example_load ''{oops'' = Inl JSONDecodeError \<and>
   fsys (visit example_load [''models'', ''e''] (start example_fs)) = example_fs \<and>
   written (visit example_load [''models'', ''e''] (start example_fs)) = [] \<and>
   error_count (visit example_load [''models'', ''e''] (start example_fs)) = 1 \<and>
   skipped_count (visit example_load [''models'', ''e''] (start example_fs)) = 0 \<and>
   walk_loop example_load [[''models'', ''e''], [''models'', ''f'']] (start example_fs) =
     walk_loop example_load [[''models'', ''f'']]
       ((start example_fs)\<lparr>out := [MsgJSONError [''models'', ''e'', ''index.json''],
                                   MsgErrorDetail JSONDecodeError, MsgRule],
                          error_count := 1\<rparr>)"
proof -
  have h1: "open_read (fsys (start example_fs)) (joinpath [''models'', ''e''] ''index.json'')
            = Inr ''{oops''"
    by code_simp
  have h2: "example_load ''{oops'' = Inl JSONDecodeError"
    by code_simp
  show ?thesis
    using parse_error_counted_walk_continues
            [where st = "start example_fs" and root_path = "[''models'', ''e'']"
               and content = "''{oops''" and json_load = example_load
               and rest = "[[''models'', ''f'']]"]
          h1 h2
    by (simp add: start_def joinpath_def)
qed

text \<open>
  C10. The extractor raises \<^verbatim>\<open>TypeError\<close> on the array that holds the string
  \<^verbatim>\<open>textures\<close> (the membership test is true and the index is a string), while on a dict
  it never raises; the walk counts a descriptor that parses to this array as an error: the
  error counter goes up by one, the skipped counter stays.
\<close>

theorem array_descriptor_raises_and_is_error:
  "extract_textures_from_json (JArr [JStr ''textures'']) = Inl TypeError \<and>
   (\<exists>r. extract_textures_from_json (JObj kvs) = Inr r) \<and>
   (load_json json_load (fsys st) (joinpath root_path ''index.json'')
      = Inr (JArr [JStr ''textures''])
    \<longrightarrow> visit json_load root_path st =
          st\<lparr>out := out st @ [MsgProcessError (joinpath root_path ''index.json''),
                                MsgErrorDetail TypeError, MsgRule],
             error_count := error_count st + 1\<rparr>)"
proof -
  have raise: "extract_textures_from_json (JArr [JStr ''textures'']) = Inl TypeError"
    by (simp add: extract_textures_from_json_def has_typed_key_def)
  have "visit json_load root_path st =
          st\<lparr>out := out st @ [MsgProcessError (joinpath root_path ''index.json''),
                                MsgErrorDetail TypeError, MsgRule],
             error_count := error_count st + 1\<rparr>"
    if l: "load_json json_load (fsys st) (joinpath root_path ''index.json'')
             = Inr (JArr [JStr ''textures''])"
  proof -
    have "verdict_of json_load (fsys st) root_path = Failed TypeError"
      using l load_exists[OF l] raise by (simp add: verdict_of_def)
    then show ?thesis
      by (simp add: visit_verdict fail_lines_def)
  qed
  with raise show ?thesis
    by (simp add: extract_dict split: option.splits json.splits)
qed

theorem array_descriptor_raises_and_is_error_witness:
  "load_json example_load (fsys (start example_fs)) (joinpath [''models'', ''f''] ''index.json'')
     = Inr (JArr [JStr ''textures'']) \<and>
   extract_textures_from_json (JArr [JStr ''textures'']) = Inl TypeError \<and>
   visit example_load [''models'', ''f''] (start example_fs) =
     (start example_fs)\<lparr>out := [MsgProcessError [''models'', ''f'', ''index.json''],
                                MsgErrorDetail TypeError, MsgRule],
                        error_count := 1\<rparr> \<and>
   skipped_count (visit example_load [''models'', ''f''] (start example_fs)) = 0"
proof -
  have h: "load_json example_load (fsys (start example_fs))
             (joinpath [''models'', ''f''] ''index.json'')
           = Inr (JArr [JStr ''textures''])"
    by code_simp
  show ?thesis
    using array_descriptor_raises_and_is_error
            [where json_load = example_load and st = "start example_fs"
               and root_path = "[''models'', ''f'']"] h
    by (simp add: start_def joinpath_def)
qed

section \<open>The whole run\<close>

text \<open>
  C9. In the loop body a directory with an \<^verbatim>\<open>index.json\<close> adds one to exactly one of
  the three counters and nothing to the two others, and a directory without one changes
  nothing. So at the end of a run over an existing directory the three counters add up to
  the number of walked directories that have an \<^verbatim>\<open>index.json\<close>, and the last line
  printed reports that sum as the total.
\<close>

theorem every_descriptor_counted_once:
  "(path_exists (fsys st) (joinpath root_path ''index.json'') \<longrightarrow>
      (processed_count (visit json_load root_path st), skipped_count (visit json_load root_path st),
       error_count (visit json_load root_path st))
      \<in> {(processed_count st + 1, skipped_count st, error_count st),
         (processed_count st, skipped_count st + 1, error_count st),
         (processed_count st, skipped_count st, error_count st + 1)}) \<and>
   (\<not> path_exists (fsys st) (joinpath root_path ''index.json'') \<longrightarrow>
      visit json_load root_path st = st) \<and>
   (path_exists fs0 directory \<longrightarrow>
      processed_count (generate_textures_cache json_load fs0 directory)
        + skipped_count (generate_textures_cache json_load fs0 directory)
        + error_count (generate_textures_cache json_load fs0 directory)
      = length (filter (\<lambda>r. path_exists fs0 (joinpath r ''index.json''))
                 (os_walk fs0 directory)) \<and>
      last (out (generate_textures_cache json_load fs0 directory))
      = MsgStatTotal (processed_count (generate_textures_cache json_load fs0 directory)
          + skipped_count (generate_textures_cache json_load fs0 directory)
          + error_count (generate_textures_cache json_load fs0 directory)))"
proof (intro conjI impI)
  assume "path_exists (fsys st) (joinpath root_path ''index.json'')"
  then show "(processed_count (visit json_load root_path st),
        skipped_count (visit json_load root_path st),
        error_count (visit json_load root_path st))
      \<in> {(processed_count st + 1, skipped_count st, error_count st),
         (processed_count st, skipped_count st + 1, error_count st),
         (processed_count st, skipped_count st, error_count st + 1)}"
    by (rule visit_one_counter)
next
  assume "\<not> path_exists (fsys st) (joinpath root_path ''index.json'')"
  then show "visit json_load root_path st = st"
    by (simp add: visit_def)
next
  assume ex: "path_exists fs0 directory"
  show "processed_count (generate_textures_cache json_load fs0 directory)
        + skipped_count (generate_textures_cache json_load fs0 directory)
        + error_count (generate_textures_cache json_load fs0 directory)
      = length (filter (\<lambda>r. path_exists fs0 (joinpath r ''index.json''))
                 (os_walk fs0 directory))"
    using ex walk_counts[of json_load "os_walk fs0 directory" "start fs0"]
    by (simp add: generate_textures_cache_def Let_def start_def)
  show "last (out (generate_textures_cache json_load fs0 directory))
      = MsgStatTotal (processed_count (generate_textures_cache json_load fs0 directory)
          + skipped_count (generate_textures_cache json_load fs0 directory)
          + error_count (generate_textures_cache json_load fs0 directory))"
    using ex by (simp add: generate_textures_cache_def Let_def)
qed

theorem every_descriptor_counted_once_witness:
  "path_exists (fsys (start example_fs)) (joinpath [''models'', ''a''] ''index.json'') \<and>
   (processed_count (visit example_load [''models'', ''a''] (start example_fs)),
    skipped_count (visit example_load [''models'', ''a''] (start example_fs)),
    error_count (visit example_load [''models'', ''a''] (start example_fs)))
     \<in> {(1, 0, 0), (0, 1, 0), (0, 0, 1)} \<and>
   \<not> path_exists (fsys (start example_fs)) (joinpath [''models'', ''g''] ''index.json'') \<and>
   visit example_load [''models'', ''g''] (start example_fs) = start example_fs \<and>
   path_exists example_fs (Path ''models'') \<and>
   processed_count (generate_textures_cache example_load example_fs (Path ''models''))
     + skipped_count (generate_textures_cache example_load example_fs (Path ''models''))
     + error_count (generate_textures_cache example_load example_fs (Path ''models'')) = 6 \<and>
   last (out (generate_textures_cache example_load example_fs (Path ''models'')))
     = MsgStatTotal 6"
proof -
  have h1: "path_exists (fsys (start example_fs)) (joinpath [''models'', ''a''] ''index.json'')"
    by code_simp
  have h2: "\<not> path_exists (fsys (start example_fs)) (joinpath [''models'', ''g''] ''index.json'')"
    by code_simp
  have h3: "path_exists example_fs (Path ''models'')"
    by code_simp
  have n: "length (filter (\<lambda>r. path_exists example_fs (joinpath r ''index.json''))
             (os_walk example_fs (Path ''models''))) = 6"
    by code_simp
  note a = every_descriptor_counted_once
             [where st = "start example_fs" and root_path = "[''models'', ''a'']"
                and json_load = example_load and ?fs0.0 = example_fs
                and directory = "Path ''models''"]
  note b = every_descriptor_counted_once
             [where st = "start example_fs" and root_path = "[''models'', ''g'']"
                and json_load = example_load and ?fs0.0 = example_fs
                and directory = "Path ''models''"]
  show ?thesis
    using a b h1 h2 h3 n
    by (simp add: start_def)
qed

text \<open>
  C8. A second run, on the file system the first run left, is the first run again: it writes
  the same texts to the same paths, counts and prints the same, and leaves the file system
  as the first run left it.
\<close>

theorem generation_idempotent:
  "generate_textures_cache json_load
       (fsys (generate_textures_cache json_load fs0 directory)) directory
     = generate_textures_cache json_load fs0 directory"
proof (cases "path_exists fs0 directory")
  case False
  then show ?thesis
    by (simp add: generate_textures_cache_def start_def)
next
  case True
  let ?W = "walk_loop json_load (os_walk fs0 directory) (start fs0)"
  have ex: "path_exists (fsys ?W) directory"
    using walk_keeps_existing[of "start fs0" directory json_load "os_walk fs0 directory"] True
    by (simp add: start_def)
  have walk: "os_walk (fsys ?W) directory = os_walk fs0 directory"
    by (simp add: os_walk_def walk_dirs start_def)
  have "walk_loop json_load (os_walk fs0 directory) ((start fs0)\<lparr>fsys := fsys ?W\<rparr>) = ?W"
    by (rule walk_again) (simp add: start_def)
  then have again: "walk_loop json_load (os_walk fs0 directory) (start (fsys ?W)) = ?W"
    by (simp add: start_def)
  have fst: "fsys (generate_textures_cache json_load fs0 directory) = fsys ?W"
    using True by (simp add: generate_textures_cache_def Let_def)
  show ?thesis
    unfolding fst
    using True ex walk again
    by (simp add: generate_textures_cache_def Let_def)
qed

theorem generation_idempotent_witness:
  "generate_textures_cache example_load
       (fsys (generate_textures_cache example_load example_fs (Path ''models''))) (Path ''models'')
     = generate_textures_cache example_load example_fs (Path ''models'') \<and>
   written (generate_textures_cache example_load example_fs (Path ''models''))
     = [([''models'', ''a'', ''textures.cache''], json_dump (JArr [JStr ''a.png'', JStr ''b.png''])),
        ([''models'', ''b'', ''textures.cache''], json_dump (JArr [JStr ''t0.png''])),
        ([''models'', ''c'', ''textures.cache''], ''[]'')]"
proof -
  have "written (generate_textures_cache example_load example_fs (Path ''models''))
     = [([''models'', ''a'', ''textures.cache''], json_dump (JArr [JStr ''a.png'', JStr ''b.png''])),
        ([''models'', ''b'', ''textures.cache''], json_dump (JArr [JStr ''t0.png''])),
        ([''models'', ''c'', ''textures.cache''], ''[]'')]"
    by code_simp
  then show ?thesis
    using generation_idempotent[of example_load example_fs "Path ''models''"]
    by simp
qed

section \<open>Preview mode and the command line\<close>

text \<open>
  C7. Preview mode leaves the file system as it was and writes nothing, unless the directory
  exists, the scan found a descriptor and the answer read is affirmative; then, and only
  after the prompt, it does what the generation run does. With a descriptor found and
  another answer (the empty answer is not affirmative) it prompts and ends with the
  cancellation line. With no descriptor found it prints that nothing was found and does not
  prompt.
\<close>

theorem preview_generates_only_after_yes:
  "(\<not> (path_exists fs0 directory
        \<and> scan_loop json_load fs0 (os_walk fs0 directory) [] \<noteq> []
        \<and> (\<exists>response. stdin = Some response \<and> affirmative response))
    \<longrightarrow> final_fs (preview_mode json_load fs0 directory stdin) = fs0
        \<and> writes (preview_mode json_load fs0 directory stdin) = []) \<and>
   (path_exists fs0 directory
      \<and> scan_loop json_load fs0 (os_walk fs0 directory) [] \<noteq> []
      \<and> stdin = Some response \<and> affirmative response
    \<longrightarrow> prompted (preview_mode json_load fs0 directory stdin)
        \<and> final_fs (preview_mode json_load fs0 directory stdin)
            = fsys (generate_textures_cache json_load fs0 directory)
        \<and> writes (preview_mode json_load fs0 directory stdin)
            = written (generate_textures_cache json_load fs0 directory)) \<and>
   (path_exists fs0 directory
      \<and> scan_loop json_load fs0 (os_walk fs0 directory) [] \<noteq> []
      \<and> stdin = Some response \<and> \<not> affirmative response
    \<longrightarrow> prompted (preview_mode json_load fs0 directory stdin)
        \<and> last (printed (preview_mode json_load fs0 directory stdin)) = MsgCancelled) \<and>
   (path_exists fs0 directory
      \<and> scan_loop json_load fs0 (os_walk fs0 directory) [] = []
    \<longrightarrow> printed (preview_mode json_load fs0 directory stdin)
            = [MsgPreviewHeader, MsgRule, MsgNothingFound]
        \<and> \<not> prompted (preview_mode json_load fs0 directory stdin)) \<and>
   \<not> affirmative ''''"
proof -
  have "\<not> affirmative ''''"
    by code_simp
  then show ?thesis
    by (auto simp: preview_mode_def Let_def split: option.splits)
qed

theorem preview_generates_only_after_yes_witness:
  "path_exists example_fs (Path ''models'') \<and>
   scan_loop example_load example_fs (os_walk example_fs (Path ''models'')) [] \<noteq> [] \<and>
   \<not> affirmative ''n'' \<and>
   final_fs (preview_mode example_load example_fs (Path ''models'') (Some ''n'')) = example_fs \<and>
   writes (preview_mode example_load example_fs (Path ''models'') (Some ''n'')) = [] \<and>
   prompted (preview_mode example_load example_fs (Path ''models'') (Some ''n'')) \<and>
   last (printed (preview_mode example_load example_fs (Path ''models'') (Some ''n'')))
     = MsgCancelled \<and>
   final_fs (preview_mode example_load example_fs (Path ''models'') (Some '''')) = example_fs \<and>
   writes (preview_mode example_load example_fs (Path ''models'') (Some '''')) = [] \<and>
   affirmative '' Yes'' \<and>
   prompted (preview_mode example_load example_fs (Path ''models'') (Some '' Yes'')) \<and>
   writes (preview_mode example_load example_fs (Path ''models'') (Some '' Yes''))
     = written (generate_textures_cache example_load example_fs (Path ''models'')) \<and>
   length (writes (preview_mode example_load example_fs (Path ''models'') (Some '' Yes''))) = 3 \<and>
   path_exists example_fs [''models'', ''d''] \<and>
   scan_loop example_load example_fs (os_walk example_fs [''models'', ''d'']) [] = [] \<and>
   printed (preview_mode example_load example_fs [''models'', ''d''] (Some ''y''))
     = [MsgPreviewHeader, MsgRule, MsgNothingFound] \<and>
   \<not> prompted (preview_mode example_load example_fs [''models'', ''d''] (Some ''y''))"
proof -
  have ex: "path_exists example_fs (Path ''models'')"
    by code_simp
  have found: "scan_loop example_load example_fs (os_walk example_fs (Path ''models'')) [] \<noteq> []"
    by code_simp
  have no: "\<not> affirmative ''n''" "\<not> affirmative ''''"
    by code_simp+
  have yes: "affirmative '' Yes''"
    by code_simp
  have n: "length (written (generate_textures_cache example_load example_fs (Path ''models''))) = 3"
    by code_simp
  have ex': "path_exists example_fs [''models'', ''d'']"
    by code_simp
  have none: "scan_loop example_load example_fs (os_walk example_fs [''models'', ''d'']) [] = []"
    by code_simp
  note a = preview_generates_only_after_yes
             [where json_load = example_load and ?fs0.0 = example_fs
                and directory = "Path ''models''" and stdin = "Some ''n''" and response = "''n''"]
  note b = preview_generates_only_after_yes
             [where json_load = example_load and ?fs0.0 = example_fs
                and directory = "Path ''models''" and stdin = "Some ''''" and response = "''''"]
  note c = preview_generates_only_after_yes
             [where json_load = example_load and ?fs0.0 = example_fs
                and directory = "Path ''models''" and stdin = "Some '' Yes''"
                and response = "'' Yes''"]
  note d = preview_generates_only_after_yes
             [where json_load = example_load and ?fs0.0 = example_fs
                and directory = "[''models'', ''d'']" and stdin = "Some ''y''"
                and response = "''y''"]
  show ?thesis
    using a b c d ex found no yes n ex' none
    by simp
qed

text \<open>
  When the first argument is \<^verbatim>\<open>-h\<close> or \<^verbatim>\<open>--help\<close>, the program prints the title and the
  usage and does nothing else.
\<close>

lemma help_first_prints_usage:
  assumes "1 < length argv" and "argv ! 1 \<in> set [''-h'', ''--help'']"
  shows "main json_load fs0 argv stdin =
           \<lparr>final_fs = fs0, writes = [], printed = [MsgTitle, MsgDoubleRule, MsgUsage],
            prompted = False, raised = None\<rparr>"
  using assms by (simp add: main_def)

text \<open>
  C6 fails on the code. The usage text puts the options after the directory, and the
  preview flag is honoured there, but a help flag after the directory is not looked at:
  the program prints no usage, walks the directory and writes the cache files.
\<close>

theorem help_after_directory_generates:
  "MsgUsage \<notin> set (printed (main example_load example_fs
                                [''generate.py'', ''models'', ''--help''] None)) \<and>
   writes (main example_load example_fs [''generate.py'', ''models'', ''--help''] None)
     = [([''models'', ''a'', ''textures.cache''], json_dump (JArr [JStr ''a.png'', JStr ''b.png''])),
        ([''models'', ''b'', ''textures.cache''], json_dump (JArr [JStr ''t0.png''])),
        ([''models'', ''c'', ''textures.cache''], ''[]'')] \<and>
   MsgUsage \<notin> set (printed (main example_load example_fs
                                [''generate.py'', ''models'', ''-h''] None)) \<and>
   length (writes (main example_load example_fs [''generate.py'', ''models'', ''-h''] None)) = 3 \<and>
   printed (main example_load example_fs [''generate.py'', ''--help'', ''models''] None)
     = [MsgTitle, MsgDoubleRule, MsgUsage] \<and>
   writes (main example_load example_fs [''generate.py'', ''--help'', ''models''] None) = [] \<and>
   prompted (main example_load example_fs [''generate.py'', ''models'', ''--preview'']
               (Some ''n''))"
  by code_simp

end
